theory Spec2Isabelle
  imports Complex_Main
begin

section \<open>Numbers\<close>

text \<open>
  JavaScript numbers are modelled as the reals: arithmetic is exact, there is no rounding
  and no overflow. \<open>Math.cos\<close>, \<open>Math.sin\<close> and \<open>Math.hypot\<close> are the exact functions,
  where the source has their values rounded to doubles: an equality or a tight bound of
  the model, such as the length of a reflected velocity, can be off by the rounding in the
  source. The two divisions of the simulation whose divisor can be zero
  (the time-to-reach of the predictive AI and the hit position on a paddle) are written
  out case by case, following what IEEE-754 division gives there; a result that is NaN
  in the source is the value \<open>None\<close> of an option type. \<open>Math.random()\<close> is a
  parameter of each function that calls it: the sample drawn, a real in \<open>[0, 1)\<close>.
\<close>

section \<open>gameConfig.js\<close>

definition DEFAULT_WIDTH :: real where "DEFAULT_WIDTH = 800"
definition DEFAULT_HEIGHT :: real where "DEFAULT_HEIGHT = 500"
definition PADDLE_WIDTH :: real where "PADDLE_WIDTH = 12"
definition PADDLE_HEIGHT_RATIO :: real where "PADDLE_HEIGHT_RATIO = 0.18"
definition PADDLE_SPEED :: real where "PADDLE_SPEED = 7"
definition PADDLE_MARGIN :: real where "PADDLE_MARGIN = 20"
definition MIN_PADDLE_HEIGHT :: real where "MIN_PADDLE_HEIGHT = 60"
definition BALL_SIZE :: real where "BALL_SIZE = 10"
definition BALL_SPEED_START :: real where "BALL_SPEED_START = 5.2"
definition BALL_SPEED_MAX :: real where "BALL_SPEED_MAX = 13.0"
definition BALL_SPEED_INCREASE :: real where "BALL_SPEED_INCREASE = 1.06"
definition MIN_BALL_SPEED_Y :: real where "MIN_BALL_SPEED_Y = 0.9"
definition MIN_BALL_SPEED_Y_INITIAL :: real where "MIN_BALL_SPEED_Y_INITIAL = 1.2"
definition AI_SPEED :: real where "AI_SPEED = 5.5"
definition WIN_SCORE :: int where "WIN_SCORE = 11"
definition MAX_REFLECTION_ANGLE :: real where "MAX_REFLECTION_ANGLE = pi * 0.35"
definition ANGLE_VARIATION :: real where "ANGLE_VARIATION = 0.6"

text \<open>\<open>GAME_CONFIG.KEYS\<close> and \<open>getKeysForAction\<close>: an action without an entry has no keys.\<close>

definition getKeysForAction :: "string \<Rightarrow> string list" where
  "getKeysForAction action =
     (if action = ''up'' then [''arrowup'', ''w'']
      else if action = ''down'' then [''arrowdown'', ''s'']
      else if action = ''pause'' then ['' '', ''spacebar'']
      else if action = ''restart'' then [''r'']
      else [])"

text \<open>
  \<open>String.prototype.toLowerCase\<close> on the ASCII letters; every other byte is kept. (No
  character outside \<open>A-Z\<close> has one of the letters of the configured key names as its
  lower case.)
\<close>

definition lowerChar :: "char \<Rightarrow> char" where
  "lowerChar c =
     (case map_of (zip ''ABCDEFGHIJKLMNOPQRSTUVWXYZ'' ''abcdefghijklmnopqrstuvwxyz'') c of
        Some l \<Rightarrow> l
      | None \<Rightarrow> c)"

definition toLowerCase :: "string \<Rightarrow> string" where
  "toLowerCase s = map lowerChar s"

definition isKeyForAction :: "string \<Rightarrow> string \<Rightarrow> bool" where
  "isKeyForAction key action = (toLowerCase key \<in> set (getKeysForAction action))"

section \<open>physics.js\<close>

record ball =
  ball_x :: real
  ball_y :: real
  ball_vx :: real
  ball_vy :: real

record paddle =
  paddle_y :: real
  paddle_height :: real

record velocity =
  vx :: real
  vy :: real

definition clamp :: "real \<Rightarrow> real \<Rightarrow> real \<Rightarrow> real" where
  "clamp v lo hi = max lo (min hi v)"

text \<open>\<open>Math.hypot\<close> of two numbers.\<close>

definition hypot :: "real \<Rightarrow> real \<Rightarrow> real" where
  "hypot a b = sqrt (a\<^sup>2 + b\<^sup>2)"

text \<open>\<open>Math.sign(v || 1)\<close>: the operand \<open>0\<close> is falsy and replaced by \<open>1\<close>.\<close>

definition signOr1 :: "real \<Rightarrow> real" where
  "signOr1 v = sgn (if v = 0 then 1 else v)"

text \<open>
  The locals \<open>angle\<close> and \<open>newSpeed\<close> of \<open>calculateReflection\<close>, and the vertical
  velocity before the correction that prevents a horizontal trajectory.
\<close>

definition reflectionAngle :: "real \<Rightarrow> real" where
  "reflectionAngle hitPosition =
     (let offCenter = (hitPosition - 0.5) * 2 in offCenter * MAX_REFLECTION_ANGLE)"

definition reflectionSpeed :: "real \<Rightarrow> real \<Rightarrow> real" where
  "reflectionSpeed currentVX currentVY =
     (let currentSpeed = hypot currentVX currentVY
      in min (currentSpeed * BALL_SPEED_INCREASE) BALL_SPEED_MAX)"

definition calculateReflection :: "real \<Rightarrow> bool \<Rightarrow> real \<Rightarrow> real \<Rightarrow> velocity" where
  "calculateReflection hitPosition isLeftPaddle currentVX currentVY =
     (let angle = reflectionAngle hitPosition;
          newSpeed = reflectionSpeed currentVX currentVY;
          direction = (if isLeftPaddle then 1 else - 1);
          vx0 = cos angle * newSpeed * direction;
          vy0 = sin angle * newSpeed;
          vy1 = (if \<bar>vy0\<bar> < MIN_BALL_SPEED_Y then signOr1 vy0 * MIN_BALL_SPEED_Y else vy0)
      in \<lparr>vx = vx0, vy = vy1\<rparr>)"

text \<open>
  The result of \<open>checkPaddleCollision\<close>. \<open>hitPosition\<close> is
  \<open>(ball.y - paddle.y) / paddle.height\<close>; a paddle of height \<open>0\<close> is hit only at
  \<open>ball.y = paddle.y\<close>, where the source computes \<open>0 / 0\<close>, that is NaN: \<open>None\<close>.
\<close>

record collision =
  hitPosition :: "real option"
  newX :: real
  isLeftPaddle :: bool

definition checkPaddleCollision :: "ball \<Rightarrow> paddle \<Rightarrow> bool \<Rightarrow> real \<Rightarrow> collision option" where
  "checkPaddleCollision b p isLeft canvasWidth =
     (let paddleX = (if isLeft then PADDLE_MARGIN
                     else canvasWidth - PADDLE_MARGIN - PADDLE_WIDTH);
          ballRadius = BALL_SIZE / 2;
          ballInXRange =
            (if isLeft then ball_x b - ballRadius \<le> paddleX + PADDLE_WIDTH \<and> ball_x b > paddleX
             else ball_x b + ballRadius \<ge> paddleX \<and> ball_x b < paddleX + PADDLE_WIDTH);
          ballInYRange = (ball_y b \<ge> paddle_y p \<and> ball_y b \<le> paddle_y p + paddle_height p);
          movingTowardPaddle = (if isLeft then ball_vx b < 0 else ball_vx b > 0)
      in if ballInXRange \<and> ballInYRange \<and> movingTowardPaddle then
           Some \<lparr>hitPosition =
                    (if paddle_height p = 0 then None
                     else Some ((ball_y b - paddle_y p) / paddle_height p)),
                 newX = (if isLeft then paddleX + PADDLE_WIDTH + ballRadius + 0.5
                         else paddleX - ballRadius - 0.5),
                 isLeftPaddle = isLeft\<rparr>
         else None)"

record wallCollision =
  newY :: real
  newVY :: real

definition checkWallCollision :: "ball \<Rightarrow> real \<Rightarrow> wallCollision option" where
  "checkWallCollision b canvasHeight =
     (let ballRadius = BALL_SIZE / 2 in
      if ball_y b - ballRadius \<le> 0 \<and> ball_vy b < 0 then
        Some \<lparr>newY = ballRadius, newVY = - ball_vy b\<rparr>
      else if ball_y b + ballRadius \<ge> canvasHeight \<and> ball_vy b > 0 then
        Some \<lparr>newY = canvasHeight - ballRadius, newVY = - ball_vy b\<rparr>
      else None)"

definition checkScoring :: "ball \<Rightarrow> real \<Rightarrow> string option" where
  "checkScoring b canvasWidth =
     (let ballRadius = BALL_SIZE / 2 in
      if ball_x b < - ballRadius then Some ''right''
      else if ball_x b > canvasWidth + ballRadius then Some ''left''
      else None)"

definition updateBallPosition :: "ball \<Rightarrow> ball" where
  "updateBallPosition b =
     \<lparr>ball_x = ball_x b + ball_vx b, ball_y = ball_y b + ball_vy b,
      ball_vx = ball_vx b, ball_vy = ball_vy b\<rparr>"

definition updatePaddlePosition :: "paddle \<Rightarrow> real \<Rightarrow> real \<Rightarrow> real \<Rightarrow> paddle" where
  "updatePaddlePosition p movement speed canvasHeight =
     (let newY = paddle_y p + movement * speed
      in p\<lparr>paddle_y := clamp newY 0 (canvasHeight - paddle_height p)\<rparr>)"

section \<open>ai.js\<close>

definition calculateAIMovement :: "ball \<Rightarrow> paddle \<Rightarrow> real \<Rightarrow> real" where
  "calculateAIMovement b p canvasHeight =
     (let targetY = ball_y b - paddle_height p / 2;
          currentY = paddle_y p;
          distance = targetY - currentY
      in if \<bar>distance\<bar> \<le> AI_SPEED then 0
         else
           let direction = sgn distance;
               movement = direction * AI_SPEED;
               newY = currentY + movement;
               maxY = canvasHeight - paddle_height p
           in if newY < 0 then - currentY
              else if newY > maxY then maxY - currentY
              else movement)"

text \<open>
  The part of \<open>calculatePredictiveAIMovement\<close> after the test \<open>timeToReach <= 0\<close>, for a
  finite positive \<open>timeToReach\<close>. The divisions by \<open>ball.vy\<close> sit under the guards
  \<open>predictedVY < 0\<close> and \<open>predictedVY > 0\<close>. \<open>rnd\<close> is the value of \<open>Math.random()\<close>.
\<close>

definition predictAndMove :: "ball \<Rightarrow> paddle \<Rightarrow> real \<Rightarrow> real \<Rightarrow> real \<Rightarrow> real \<Rightarrow> real" where
  "predictAndMove b p canvasHeight difficulty timeToReach rnd =
     (let predictedY0 = ball_y b + ball_vy b * timeToReach;
          predictedVY = ball_vy b;
          ballRadius = BALL_SIZE / 2;
          predictedY1 =
            (if predictedY0 < ballRadius \<and> predictedVY < 0 then
               (let wallHitTime = (ballRadius - ball_y b) / ball_vy b;
                    wallHitY = ballRadius;
                    remainingTime = timeToReach - wallHitTime
                in wallHitY + (- predictedVY * remainingTime))
             else if predictedY0 > canvasHeight - ballRadius \<and> predictedVY > 0 then
               (let wallHitTime = (canvasHeight - ballRadius - ball_y b) / ball_vy b;
                    wallHitY = canvasHeight - ballRadius;
                    remainingTime = timeToReach - wallHitTime
                in wallHitY + (- predictedVY * remainingTime))
             else predictedY0);
          imperfection = (1 - min difficulty 1) * 50;
          predictedY = predictedY1 + (rnd - 0.5) * imperfection;
          targetY = predictedY - paddle_height p / 2;
          distance = targetY - paddle_y p;
          aiSpeed = AI_SPEED * difficulty
      in if \<bar>distance\<bar> \<le> aiSpeed then 0 else sgn distance * aiSpeed)"

text \<open>
  \<open>calculatePredictiveAIMovement\<close>. With \<open>ball.vx = 0\<close> the source divides by zero:
  \<^item> \<open>paddleX - ball.x < 0\<close>: \<open>timeToReach\<close> is \<open>-Infinity\<close>, the basic AI answers;
  \<^item> \<open>paddleX - ball.x = 0\<close>: \<open>timeToReach\<close> is NaN, every later comparison is false and
    the result is \<open>Math.sign(NaN) * aiSpeed\<close>, NaN;
  \<^item> \<open>paddleX - ball.x > 0\<close>: \<open>timeToReach\<close> is \<open>+Infinity\<close>. With \<open>ball.vy = 0\<close> the
    prediction is \<open>0 * Infinity\<close>, NaN, and so is the result. With \<open>ball.vy < 0\<close> the
    prediction is \<open>-Infinity\<close>, the top-wall branch turns it into \<open>+Infinity\<close>, the
    distance is \<open>+Infinity\<close> and the result is \<open>aiSpeed\<close>; with \<open>ball.vy > 0\<close>,
    symmetrically, \<open>- aiSpeed\<close>.
\<close>

definition calculatePredictiveAIMovement ::
    "ball \<Rightarrow> paddle \<Rightarrow> real \<Rightarrow> real \<Rightarrow> real \<Rightarrow> real \<Rightarrow> real option" where
  "calculatePredictiveAIMovement b p canvasWidth canvasHeight difficulty rnd =
     (if ball_vx b < 0 then
        (let centerY = (canvasHeight - paddle_height p) / 2;
             distance = centerY - paddle_y p
         in if \<bar>distance\<bar> \<le> AI_SPEED then Some 0
            else Some (sgn distance * AI_SPEED * 0.5))
      else
        let paddleX = canvasWidth - PADDLE_MARGIN - PADDLE_WIDTH;
            aiSpeed = AI_SPEED * difficulty
        in if ball_vx b = 0 then
             (if paddleX - ball_x b < 0 then Some (calculateAIMovement b p canvasHeight)
              else if paddleX - ball_x b = 0 then None
              else if ball_vy b = 0 then None
              else if ball_vy b < 0 then Some (1 * aiSpeed)
              else Some (- 1 * aiSpeed))
           else
             let timeToReach = (paddleX - ball_x b) / ball_vx b
             in if timeToReach \<le> 0 then Some (calculateAIMovement b p canvasHeight)
                else Some (predictAndMove b p canvasHeight difficulty timeToReach rnd))"

record difficultySettings =
  name :: string
  multiplier :: real
  description :: string

definition AI_DIFFICULTIES_normal :: difficultySettings where
  "AI_DIFFICULTIES_normal =
     \<lparr>name = ''Normal'', multiplier = 1.0, description = ''Balanced AI opponent''\<rparr>"

definition AI_DIFFICULTIES :: "string \<Rightarrow> difficultySettings option" where
  "AI_DIFFICULTIES key =
     (if key = ''easy'' then
        Some \<lparr>name = ''Easy'', multiplier = 0.6,
              description = ''Slower AI with prediction errors''\<rparr>
      else if key = ''normal'' then Some AI_DIFFICULTIES_normal
      else if key = ''hard'' then
        Some \<lparr>name = ''Hard'', multiplier = 1.3, description = ''Fast AI with prediction''\<rparr>
      else if key = ''impossible'' then
        Some \<lparr>name = ''Impossible'', multiplier = 1.8,
              description = ''Perfect AI - good luck!''\<rparr>
      else None)"

text \<open>
  \<open>createAI(difficulty)\<close>: the controller is its \<open>difficulty\<close> field, and
  \<open>createAI_update\<close> is its \<open>update\<close> method. \<open>Math.min\<close> of NaN is NaN.
\<close>

definition createAI :: "string \<Rightarrow> difficultySettings" where
  "createAI difficulty =
     (case AI_DIFFICULTIES difficulty of
        Some d \<Rightarrow> d
      | None \<Rightarrow> AI_DIFFICULTIES_normal)"

definition createAI_update ::
    "difficultySettings \<Rightarrow> ball \<Rightarrow> paddle \<Rightarrow> real \<Rightarrow> real \<Rightarrow> real \<Rightarrow> real option" where
  "createAI_update settings b p canvasWidth canvasHeight rnd =
     (case calculatePredictiveAIMovement b p canvasWidth canvasHeight (multiplier settings) rnd of
        None \<Rightarrow> None
      | Some movement \<Rightarrow>
          Some (max 0 (min (paddle_y p + movement) (canvasHeight - paddle_height p))))"

section \<open>gameStore.js\<close>

record canvas =
  canvas_width :: real
  canvas_height :: real
  canvas_dpr :: real

record paddles =
  left :: paddle
  right :: paddle

record gameState =
  paused :: bool
  over :: bool
  scoreLeft :: int
  scoreRight :: int

text \<open>
  The writable stores of the module, as one record. (The store \<open>inputState\<close> is read and
  written by no action and is left out.)
\<close>

record store =
  canvas :: canvas
  paddles :: paddles
  ball :: ball
  gameState :: gameState

definition initialPaddleHeight :: real where
  "initialPaddleHeight = max MIN_PADDLE_HEIGHT (DEFAULT_HEIGHT * PADDLE_HEIGHT_RATIO)"

definition initialPaddleY :: real where
  "initialPaddleY = (DEFAULT_HEIGHT - initialPaddleHeight) / 2"

definition initialStore :: store where
  "initialStore =
     \<lparr>canvas = \<lparr>canvas_width = DEFAULT_WIDTH, canvas_height = DEFAULT_HEIGHT, canvas_dpr = 1\<rparr>,
      paddles = \<lparr>left = \<lparr>paddle_y = initialPaddleY, paddle_height = initialPaddleHeight\<rparr>,
                 right = \<lparr>paddle_y = initialPaddleY, paddle_height = initialPaddleHeight\<rparr>\<rparr>,
      ball = \<lparr>ball_x = DEFAULT_WIDTH / 2, ball_y = DEFAULT_HEIGHT / 2,
              ball_vx = BALL_SPEED_START, ball_vy = BALL_SPEED_START * 0.5\<rparr>,
      gameState = \<lparr>paused = False, over = False, scoreLeft = 0, scoreRight = 0\<rparr>\<rparr>"

text \<open>
  \<open>gameActions.resetBall(toLeft)\<close>, called with its argument (as every caller does);
  \<open>rnd\<close> is the \<open>Math.random()\<close> of the angle.
\<close>

definition resetBall :: "bool \<Rightarrow> real \<Rightarrow> store \<Rightarrow> store" where
  "resetBall toLeft rnd st =
     (let c = canvas st;
          angle = (rnd * ANGLE_VARIATION - ANGLE_VARIATION / 2) + (if toLeft then pi else 0);
          speed = BALL_SPEED_START;
          b0 = \<lparr>ball_x = canvas_width c / 2, ball_y = canvas_height c / 2,
                ball_vx = cos angle * speed * (if toLeft then - 1 else 1),
                ball_vy = sin angle * speed\<rparr>;
          b1 = (if \<bar>ball_vy b0\<bar> < MIN_BALL_SPEED_Y_INITIAL
                then b0\<lparr>ball_vy := signOr1 (ball_vy b0) * MIN_BALL_SPEED_Y_INITIAL\<rparr>
                else b0)
      in st\<lparr>ball := b1\<rparr>)"

definition resetPositions :: "store \<Rightarrow> store" where
  "resetPositions st =
     (let paddleHeight = max MIN_PADDLE_HEIGHT (canvas_height (canvas st) * PADDLE_HEIGHT_RATIO);
          centerY = (canvas_height (canvas st) - paddleHeight) / 2
      in st\<lparr>paddles := \<lparr>left = \<lparr>paddle_y = centerY, paddle_height = paddleHeight\<rparr>,
                          right = \<lparr>paddle_y = centerY, paddle_height = paddleHeight\<rparr>\<rparr>\<rparr>)"

text \<open>
  \<open>resetMatch\<close> draws twice: \<open>rndSide\<close> for \<open>Math.random() < 0.5\<close>, then \<open>rndAngle\<close>
  inside \<open>resetBall\<close>.
\<close>

definition resetMatch :: "real \<Rightarrow> real \<Rightarrow> store \<Rightarrow> store" where
  "resetMatch rndSide rndAngle st =
     (let st1 = st\<lparr>gameState :=
                   (gameState st)\<lparr>paused := False, over := False,
                                  scoreLeft := 0, scoreRight := 0\<rparr>\<rparr>
      in resetBall (rndSide < 0.5) rndAngle (resetPositions st1))"

definition togglePause :: "store \<Rightarrow> store" where
  "togglePause st =
     (if over (gameState st) then st
      else st\<lparr>gameState := (gameState st)\<lparr>paused := \<not> paused (gameState st)\<rparr>\<rparr>)"

definition scorePoint :: "string \<Rightarrow> real \<Rightarrow> store \<Rightarrow> store" where
  "scorePoint side rnd st =
     (let s0 = gameState st;
          s1 = (if side = ''left'' then s0\<lparr>scoreLeft := scoreLeft s0 + 1\<rparr>
                else s0\<lparr>scoreRight := scoreRight s0 + 1\<rparr>);
          s2 = (if scoreLeft s1 \<ge> WIN_SCORE \<or> scoreRight s1 \<ge> WIN_SCORE
                then s1\<lparr>over := True, paused := True\<rparr>
                else s1)
      in resetBall (side = ''right'') rnd (resetPositions (st\<lparr>gameState := s2\<rparr>)))"

definition updateCanvas :: "real \<Rightarrow> real \<Rightarrow> real \<Rightarrow> store \<Rightarrow> store" where
  "updateCanvas w h d st =
     resetPositions (st\<lparr>canvas := \<lparr>canvas_width = w, canvas_height = h, canvas_dpr = d\<rparr>\<rparr>)"

text \<open>
  \<open>gameActions.updatePaddlePosition(side, y)\<close>. The store has the paddles \<open>left\<close> and
  \<open>right\<close>; for another \<open>side\<close> the source reads \<open>height\<close> of \<open>undefined\<close> and throws.
\<close>

definition gameActions_updatePaddlePosition :: "string \<Rightarrow> real \<Rightarrow> store \<Rightarrow> store option" where
  "gameActions_updatePaddlePosition side yv st =
     (let ps = paddles st in
      if side = ''left'' then
        (let maxY = canvas_height (canvas st) - paddle_height (left ps)
         in Some (st\<lparr>paddles := ps\<lparr>left := (left ps)\<lparr>paddle_y := max 0 (min maxY yv)\<rparr>\<rparr>\<rparr>))
      else if side = ''right'' then
        (let maxY = canvas_height (canvas st) - paddle_height (right ps)
         in Some (st\<lparr>paddles := ps\<lparr>right := (right ps)\<lparr>paddle_y := max 0 (min maxY yv)\<rparr>\<rparr>\<rparr>))
      else None)"

definition gameActions_updateBallPosition :: "real \<Rightarrow> real \<Rightarrow> real \<Rightarrow> real \<Rightarrow> store \<Rightarrow> store" where
  "gameActions_updateBallPosition xv yv vxv vyv st =
     st\<lparr>ball := \<lparr>ball_x = xv, ball_y = yv, ball_vx = vxv, ball_vy = vyv\<rparr>\<rparr>"

text \<open>The calls of \<open>scorePoint\<close> and \<open>togglePause\<close>, one after the other.\<close>

datatype action = ScorePoint string real | TogglePause

fun applyAction :: "store \<Rightarrow> action \<Rightarrow> store" where
  "applyAction st (ScorePoint side rnd) = scorePoint side rnd st"
| "applyAction st TogglePause = togglePause st"

definition applyActions :: "store \<Rightarrow> action list \<Rightarrow> store" where
  "applyActions st acts = foldl applyAction st acts"

section \<open>gameEngine.js\<close>

text \<open>
  The engine: the stores it reads and writes, and the variables \<open>playerMovement\<close> and
  \<open>ai\<close> of its closure. Rendering reads the stores and writes none of them; it is not
  modelled.
\<close>

record engine =
  store :: store
  playerMovement :: real
  ai :: difficultySettings

text \<open>
  Lines 102-112 and 122-132 of \<open>updatePhysics\<close>: the reflection applied to \<open>newBall\<close>
  for a collision. With a hit position that is NaN the new velocity is NaN: \<open>None\<close>.
\<close>

definition applyCollision :: "ball \<Rightarrow> collision \<Rightarrow> ball option" where
  "applyCollision newBall c =
     (case hitPosition c of
        None \<Rightarrow> None
      | Some hp \<Rightarrow>
          (let reflection =
                 calculateReflection hp (isLeftPaddle c) (ball_vx newBall) (ball_vy newBall)
           in Some (newBall\<lparr>ball_vx := vx reflection, ball_vy := vy reflection,
                            ball_x := newX c\<rparr>)))"

text \<open>
  Lines 94-132 of \<open>updatePhysics\<close>, from the ball after the wall collision: the values of
  \<open>leftCollision\<close>, \<open>rightCollision\<close> and \<open>newBall\<close> at line 132. \<open>newBall\<close> is
  mutated by the left reflection before the right check reads it. A ball whose velocity
  is NaN is not moving toward the right paddle (\<open>NaN > 0\<close> is false).
\<close>

record paddlePhase =
  leftCollision :: "collision option"
  rightCollision :: "collision option"
  phaseBall :: "ball option"

definition paddleCollisions :: "ball \<Rightarrow> paddles \<Rightarrow> real \<Rightarrow> paddlePhase" where
  "paddleCollisions newBall updatedPaddles canvasWidth =
     (let lc = checkPaddleCollision newBall (left updatedPaddles) True canvasWidth;
          ball1 = (case lc of None \<Rightarrow> Some newBall | Some c \<Rightarrow> applyCollision newBall c);
          rc = (case ball1 of
                  None \<Rightarrow> None
                | Some b1 \<Rightarrow> checkPaddleCollision b1 (right updatedPaddles) False canvasWidth);
          ball2 = (case rc of
                     None \<Rightarrow> ball1
                   | Some c \<Rightarrow> (case ball1 of None \<Rightarrow> None | Some b1 \<Rightarrow> applyCollision b1 c))
      in \<lparr>leftCollision = lc, rightCollision = rc, phaseBall = ball2\<rparr>)"

text \<open>
  The paddle phase as the specification words it: both collisions checked against the
  same ball, the one after the wall collision, neither against the other's output.
\<close>

definition paddleCollisions_sameState :: "ball \<Rightarrow> paddles \<Rightarrow> real \<Rightarrow> paddlePhase" where
  "paddleCollisions_sameState newBall updatedPaddles canvasWidth =
     (let lc = checkPaddleCollision newBall (left updatedPaddles) True canvasWidth;
          rc = checkPaddleCollision newBall (right updatedPaddles) False canvasWidth;
          ball1 = (case lc of None \<Rightarrow> Some newBall | Some c \<Rightarrow> applyCollision newBall c);
          ball2 = (case rc of
                     None \<Rightarrow> ball1
                   | Some c \<Rightarrow> (case ball1 of None \<Rightarrow> None | Some b1 \<Rightarrow> applyCollision b1 c))
      in \<lparr>leftCollision = lc, rightCollision = rc, phaseBall = ball2\<rparr>)"

text \<open>The number of paddle reflections applied in a paddle phase.\<close>

definition reflectionsApplied :: "paddlePhase \<Rightarrow> nat" where
  "reflectionsApplied ph =
     (if leftCollision ph = None then 0 else 1) + (if rightCollision ph = None then 0 else 1)"

text \<open>
  \<open>updatePhysics\<close>. \<open>rndAI\<close> is the \<open>Math.random()\<close> of the predictive AI, \<open>rndBall\<close>
  the one of \<open>resetBall\<close> when a point is scored. The result is \<open>None\<close> when a NaN arises
  in the tick (in the AI's new position or in a reflected velocity); what the source then
  writes to the stores is not followed.
\<close>

definition updatePhysics :: "engine \<Rightarrow> real \<Rightarrow> real \<Rightarrow> engine option" where
  "updatePhysics e rndAI rndBall =
     (let currentCanvas = canvas (store e);
          currentPaddles = paddles (store e);
          currentBall = ball (store e);
          st1 = (if playerMovement e \<noteq> 0 then
                   (let newLeftPaddle =
                          updatePaddlePosition (left currentPaddles) (playerMovement e)
                            PADDLE_SPEED (canvas_height currentCanvas)
                    in (store e)\<lparr>paddles := (paddles (store e))\<lparr>left := newLeftPaddle\<rparr>\<rparr>)
                 else store e)
      in case createAI_update (ai e) currentBall (right currentPaddles)
                (canvas_width currentCanvas) (canvas_height currentCanvas) rndAI of
           None \<Rightarrow> None
         | Some newRightY \<Rightarrow>
             (let st2 = st1\<lparr>paddles :=
                           (paddles st1)\<lparr>right := (right (paddles st1))\<lparr>paddle_y := newRightY\<rparr>\<rparr>\<rparr>;
                  newBall0 = updateBallPosition currentBall;
                  newBall1 =
                    (case checkWallCollision newBall0 (canvas_height currentCanvas) of
                       None \<Rightarrow> newBall0
                     | Some wc \<Rightarrow> newBall0\<lparr>ball_y := newY wc, ball_vy := newVY wc\<rparr>);
                  updatedPaddles = paddles st2
              in case phaseBall (paddleCollisions newBall1 updatedPaddles
                                   (canvas_width currentCanvas)) of
                   None \<Rightarrow> None
                 | Some newBall \<Rightarrow>
                     (case checkScoring newBall (canvas_width currentCanvas) of
                        Some scoring \<Rightarrow> Some (e\<lparr>store := scorePoint scoring rndBall st2\<rparr>)
                      | None \<Rightarrow> Some (e\<lparr>store := st2\<lparr>ball := newBall\<rparr>\<rparr>))))"

text \<open>\<open>gameLoop\<close>, one animation frame: the physics step is skipped when paused or over.\<close>

definition gameLoop :: "engine \<Rightarrow> real \<Rightarrow> real \<Rightarrow> engine option" where
  "gameLoop e rndAI rndBall =
     (let currentGameState = gameState (store e) in
      if \<not> paused currentGameState \<and> \<not> over currentGameState
      then updatePhysics e rndAI rndBall
      else Some e)"

definition handleTouchMove :: "real \<Rightarrow> store \<Rightarrow> store option" where
  "handleTouchMove yv st =
     (let currentPaddles = paddles st;
          paddleY = yv - paddle_height (left currentPaddles) / 2
      in gameActions_updatePaddlePosition ''left'' paddleY st)"

section \<open>inputHandler.js\<close>

text \<open>
  \<open>activeKeys\<close> is the array \<open>Array.from(activeKeys)\<close> of the set of pressed keys.
  \<open>updateMovementState\<close> gives the movement it passes to \<open>onKeyAction('move', _)\<close>.
\<close>

definition calculateMovement :: "string list \<Rightarrow> real" where
  "calculateMovement activeKeys =
     (let movement0 = 0;
          upPressed = (\<exists>key \<in> set activeKeys. isKeyForAction key ''up'');
          movement1 = (if upPressed then movement0 - 1 else movement0);
          downPressed = (\<exists>key \<in> set activeKeys. isKeyForAction key ''down'');
          movement2 = (if downPressed then movement1 + 1 else movement1)
      in movement2)"

definition updateMovementState :: "string list \<Rightarrow> real" where
  "updateMovementState activeKeys =
     (let movement0 = 0;
          upPressed = (\<exists>key \<in> set activeKeys. isKeyForAction key ''up'');
          movement1 = (if upPressed then movement0 - 1 else movement0);
          downPressed = (\<exists>key \<in> set activeKeys. isKeyForAction key ''down'');
          movement2 = (if downPressed then movement1 + 1 else movement1)
      in movement2)"

text \<open>
  \<open>handleKeyDown\<close> and \<open>handleKeyUp\<close> on the set of active keys: the new set and the
  call of \<open>onKeyAction\<close> made, if any.
\<close>

datatype keyAction = Pause | Restart | Move real

definition handleKeyDown :: "string \<Rightarrow> string list \<Rightarrow> string list \<times> keyAction option" where
  "handleKeyDown eventKey activeKeys =
     (let key = toLowerCase eventKey in
      if isKeyForAction key ''pause'' then (activeKeys, Some Pause)
      else if isKeyForAction key ''restart'' then (activeKeys, Some Restart)
      else if isKeyForAction key ''up'' \<or> isKeyForAction key ''down'' then
        (if key \<notin> set activeKeys
         then (activeKeys @ [key], Some (Move (updateMovementState (activeKeys @ [key]))))
         else (activeKeys, None))
      else (activeKeys, None))"

definition handleKeyUp :: "string \<Rightarrow> string list \<Rightarrow> string list \<times> keyAction option" where
  "handleKeyUp eventKey activeKeys =
     (let key = toLowerCase eventKey in
      if key \<in> set activeKeys
      then (removeAll key activeKeys, Some (Move (updateMovementState (removeAll key activeKeys))))
      else (activeKeys, None))"

section \<open>Predicates of the properties\<close>

text \<open>The bounds invariant of a paddle in a canvas of the given height.\<close>

definition paddleInBounds :: "paddle \<Rightarrow> real \<Rightarrow> bool" where
  "paddleInBounds p canvasHeight =
     (0 \<le> paddle_y p \<and> paddle_y p \<le> canvasHeight - paddle_height p)"

lemmas config_defs =
  DEFAULT_WIDTH_def DEFAULT_HEIGHT_def PADDLE_WIDTH_def PADDLE_HEIGHT_RATIO_def
  PADDLE_SPEED_def PADDLE_MARGIN_def MIN_PADDLE_HEIGHT_def BALL_SIZE_def
  BALL_SPEED_START_def BALL_SPEED_MAX_def BALL_SPEED_INCREASE_def MIN_BALL_SPEED_Y_def
  MIN_BALL_SPEED_Y_INITIAL_def AI_SPEED_def WIN_SCORE_def MAX_REFLECTION_ANGLE_def
  ANGLE_VARIATION_def

section \<open>Paddle reflection\<close>

lemma reflectionSpeed_pos:
  assumes "a \<noteq> 0 \<or> b \<noteq> 0"
  shows "0 < reflectionSpeed a b"
proof -
  from assms have "0 < a\<^sup>2 + b\<^sup>2"
    by (metis sum_power2_gt_zero_iff)
  then have "0 < hypot a b"
    by (simp add: hypot_def)
  then show ?thesis
    by (simp add: reflectionSpeed_def Let_def BALL_SPEED_INCREASE_def BALL_SPEED_MAX_def)
qed

text \<open>A ball that arrives faster than \<open>BALL_SPEED_MAX\<close> leaves with the capped speed.\<close>

lemma reflectionSpeed_capped: "reflectionSpeed (- 13) (9 / 10) = 13"
proof -
  have "(13::real) \<le> sqrt ((- 13)\<^sup>2 + (9 / 10)\<^sup>2)"
    by (rule real_le_rsqrt) simp
  then have "(13::real) \<le> hypot (- 13) (9 / 10) * BALL_SPEED_INCREASE"
    by (simp add: hypot_def BALL_SPEED_INCREASE_def)
  then show ?thesis
    by (simp add: reflectionSpeed_def Let_def BALL_SPEED_MAX_def)
qed

lemma reflectionAngle_range:
  assumes "0 \<le> h" "h \<le> 1"
  shows "- (pi / 2) < reflectionAngle h \<and> reflectionAngle h < pi / 2"
proof -
  have a: "reflectionAngle h = (2 * h - 1) * (pi * 0.35)"
    by (simp add: reflectionAngle_def Let_def MAX_REFLECTION_ANGLE_def algebra_simps)
  have "\<bar>2 * h - 1\<bar> \<le> 1"
    using assms by (simp add: abs_le_iff)
  then have "\<bar>(2 * h - 1) * (pi * 0.35)\<bar> \<le> 1 * (pi * 0.35)"
    unfolding abs_mult by (intro mult_mono) auto
  moreover have "1 * (pi * 0.35) < pi / 2"
    using pi_gt_zero by simp
  ultimately have "\<bar>reflectionAngle h\<bar> < pi / 2"
    unfolding a by linarith
  then show ?thesis by linarith
qed

text \<open>
  The vertical half of C1 holds: the returned \<open>vy\<close> is either the computed one, of
  magnitude at least \<open>MIN_BALL_SPEED_Y\<close>, or exactly \<open>MIN_BALL_SPEED_Y\<close> with a sign.
\<close>

lemma calculateReflection_vy_min:
  "MIN_BALL_SPEED_Y \<le> \<bar>vy (calculateReflection h l a b)\<bar>"
  by (simp add: calculateReflection_def Let_def signOr1_def MIN_BALL_SPEED_Y_def
      sgn_real_def abs_mult)

text \<open>
  C1 at a failing input. The new speed is capped at \<open>BALL_SPEED_MAX\<close>, and then \<open>vy\<close> is
  raised to \<open>MIN_BALL_SPEED_Y\<close> with \<open>vx\<close> left as it is. A ball that arrives at the centre
  of the left paddle with velocity \<open>(-13, 0.9)\<close>, as the right paddle returns it at full
  speed, leaves with velocity \<open>(13, 0.9)\<close>: its speed exceeds \<open>BALL_SPEED_MAX\<close>, where the
  claim, the constant and the comment on the cap ask for at most \<open>13.0\<close>. (At this input
  every operation of the source is exact in double arithmetic but \<open>Math.hypot\<close>, whose
  result, above 13, is cut to 13 by the cap.)
\<close>

theorem calculateReflection_exceeds_max:
  "calculateReflection (1 / 2) True (- 13) (9 / 10) = \<lparr>vx = 13, vy = 9 / 10\<rparr>
   \<and> BALL_SPEED_MAX
       < hypot (vx (calculateReflection (1 / 2) True (- 13) (9 / 10)))
           (vy (calculateReflection (1 / 2) True (- 13) (9 / 10)))"
proof -
  have r: "calculateReflection (1 / 2) True (- 13) (9 / 10) = \<lparr>vx = 13, vy = 9 / 10\<rparr>"
    by (simp add: calculateReflection_def Let_def reflectionSpeed_capped reflectionAngle_def
        signOr1_def MIN_BALL_SPEED_Y_def)
  have "13\<^sup>2 < (13::real)\<^sup>2 + (9 / 10)\<^sup>2"
    by simp
  then have "sqrt (13\<^sup>2) < sqrt ((13::real)\<^sup>2 + (9 / 10)\<^sup>2)"
    using real_sqrt_less_iff by blast
  then show ?thesis
    by (simp add: r hypot_def BALL_SPEED_MAX_def)
qed

text \<open>
  The sign of the reflected \<open>vx\<close> for a hit position in \<open>[0, 1]\<close> and a ball that moves.
  (For the velocity \<open>(0, 0)\<close>, which no call of the engine passes, the new speed and the
  returned \<open>vx\<close> are \<open>0\<close>.)
\<close>

lemma calculateReflection_vx_away:
  assumes "0 \<le> h" and "h \<le> 1" and "a \<noteq> 0 \<or> b \<noteq> 0"
  shows "(l \<longrightarrow> 0 < vx (calculateReflection h l a b))
       \<and> (\<not> l \<longrightarrow> vx (calculateReflection h l a b) < 0)"
proof -
  have c: "0 < cos (reflectionAngle h)"
    using reflectionAngle_range[OF assms(1,2)] by (simp add: cos_gt_zero_pi)
  have s: "0 < reflectionSpeed a b"
    using assms(3) by (rule reflectionSpeed_pos)
  have "0 < cos (reflectionAngle h) * reflectionSpeed a b"
    using c s by simp
  then show ?thesis
    by (simp add: calculateReflection_def Let_def)
qed

text \<open>
  What \<open>checkPaddleCollision\<close> hands to \<open>calculateReflection\<close>: the paddle struck, a hit
  position in \<open>[0, 1]\<close>, and a ball that moves toward that paddle.
\<close>

lemma checkPaddleCollision_result:
  assumes "checkPaddleCollision bl p l canvasWidth = Some c" and "hitPosition c = Some hp"
  shows "isLeftPaddle c = l \<and> 0 \<le> hp \<and> hp \<le> 1 \<and> ball_vx bl \<noteq> 0"
proof -
  from assms(1) have fired:
    "paddle_y p \<le> ball_y bl" "ball_y bl \<le> paddle_y p + paddle_height p"
    "if l then ball_vx bl < 0 else 0 < ball_vx bl"
    and side: "isLeftPaddle c = l"
    and hit: "hitPosition c = (if paddle_height p = 0 then None
                               else Some ((ball_y bl - paddle_y p) / paddle_height p))"
    by (auto simp add: checkPaddleCollision_def Let_def split: if_splits)
  from hit assms(2) have h: "paddle_height p \<noteq> 0"
    and hp: "hp = (ball_y bl - paddle_y p) / paddle_height p"
    by (auto split: if_splits)
  from fired h have pos: "0 < paddle_height p"
    by linarith
  have "0 \<le> hp" "hp \<le> 1"
    using fired pos unfolding hp by (simp_all add: field_simps)
  moreover have "ball_vx bl \<noteq> 0"
    using fired(3) by (auto split: if_splits)
  ultimately show ?thesis
    using side by simp
qed

text \<open>
  C10. \<open>calculateReflection\<close> is called with the result of \<open>checkPaddleCollision\<close> and the
  velocity of the ball checked. For every ball, paddle and canvas width for which the check
  fires with a hit position, that position lies in \<open>[0, 1]\<close> and the \<open>vx\<close> returned points
  away from the paddle struck: positive for the left paddle, negative for the right one;
  so does the \<open>vx\<close> of the ball after the reflection is applied.
\<close>

theorem calculateReflection_vx_sign:
  "(checkPaddleCollision bl p l canvasWidth = Some c \<and> hitPosition c = Some hp \<longrightarrow>
      0 \<le> hp \<and> hp \<le> 1
      \<and> (l \<longrightarrow>
           0 < vx (calculateReflection hp (isLeftPaddle c) (ball_vx bl) (ball_vy bl)))
      \<and> (\<not> l \<longrightarrow>
           vx (calculateReflection hp (isLeftPaddle c) (ball_vx bl) (ball_vy bl)) < 0))
   \<and> (checkPaddleCollision bl p l canvasWidth = Some c \<and> applyCollision bl c = Some bl' \<longrightarrow>
      (l \<longrightarrow> 0 < ball_vx bl') \<and> (\<not> l \<longrightarrow> ball_vx bl' < 0))"
proof -
  have first: "0 \<le> hp' \<and> hp' \<le> 1
      \<and> (l \<longrightarrow>
           0 < vx (calculateReflection hp' (isLeftPaddle c) (ball_vx bl) (ball_vy bl)))
      \<and> (\<not> l \<longrightarrow>
           vx (calculateReflection hp' (isLeftPaddle c) (ball_vx bl) (ball_vy bl)) < 0)"
    if "checkPaddleCollision bl p l canvasWidth = Some c" and "hitPosition c = Some hp'"
    for hp'
  proof -
    have r: "isLeftPaddle c = l" "0 \<le> hp'" "hp' \<le> 1" "ball_vx bl \<noteq> 0"
      using checkPaddleCollision_result[OF that] by simp_all
    show ?thesis
      using r calculateReflection_vx_away[of hp' "ball_vx bl" "ball_vy bl" l] by simp
  qed
  have second: "(l \<longrightarrow> 0 < ball_vx bl') \<and> (\<not> l \<longrightarrow> ball_vx bl' < 0)"
    if fired: "checkPaddleCollision bl p l canvasWidth = Some c"
      and applied: "applyCollision bl c = Some bl'"
  proof -
    from applied obtain hp' where hp': "hitPosition c = Some hp'"
      and v: "ball_vx bl' = vx (calculateReflection hp' (isLeftPaddle c) (ball_vx bl) (ball_vy bl))"
      by (auto simp add: applyCollision_def Let_def split: option.splits)
    show ?thesis
      using first[OF fired hp'] v by simp
  qed
  show ?thesis
    using first second by blast
qed

theorem calculateReflection_vx_sign_witness:
  "0 < vx (calculateReflection (1 / 2) True (- 5) 0)
   \<and> vx (calculateReflection (1 / 2) False 5 0) < 0"
proof -
  have l: "checkPaddleCollision \<lparr>ball_x = 36, ball_y = 250, ball_vx = - 5, ball_vy = 0\<rparr>
             \<lparr>paddle_y = 205, paddle_height = 90\<rparr> True 800
           = Some \<lparr>hitPosition = Some (1 / 2), newX = 75 / 2, isLeftPaddle = True\<rparr>"
    by (simp add: checkPaddleCollision_def Let_def config_defs)
  have r: "checkPaddleCollision \<lparr>ball_x = 765, ball_y = 250, ball_vx = 5, ball_vy = 0\<rparr>
             \<lparr>paddle_y = 205, paddle_height = 90\<rparr> False 800
           = Some \<lparr>hitPosition = Some (1 / 2), newX = 1525 / 2, isLeftPaddle = False\<rparr>"
    by (simp add: checkPaddleCollision_def Let_def config_defs)
  show ?thesis
    using l r
      calculateReflection_vx_sign
        [of "\<lparr>ball_x = 36, ball_y = 250, ball_vx = - 5, ball_vy = 0\<rparr>"
            "\<lparr>paddle_y = 205, paddle_height = 90\<rparr>" True 800
            "\<lparr>hitPosition = Some (1 / 2), newX = 75 / 2, isLeftPaddle = True\<rparr>" "1 / 2"]
      calculateReflection_vx_sign
        [of "\<lparr>ball_x = 765, ball_y = 250, ball_vx = 5, ball_vy = 0\<rparr>"
            "\<lparr>paddle_y = 205, paddle_height = 90\<rparr>" False 800
            "\<lparr>hitPosition = Some (1 / 2), newX = 1525 / 2, isLeftPaddle = False\<rparr>" "1 / 2"]
    by simp
qed

section \<open>Wall collision\<close>

text \<open>
  C7. When the top-wall condition holds (\<open>y - r \<le> 0\<close>, moving up), \<open>checkWallCollision\<close>
  returns \<open>newVY = - vy\<close> and \<open>newY = r\<close>; when the bottom-wall condition holds
  (\<open>y + r \<ge> canvasHeight\<close>, moving down), it returns \<open>newVY = - vy\<close> and
  \<open>newY = canvasHeight - r\<close>; in every other state it returns null. \<open>- vy\<close> has the
  magnitude of \<open>vy\<close> and the opposite sign.
\<close>

theorem checkWallCollision_reflects:
  "(ball_y b - BALL_SIZE / 2 \<le> 0 \<and> ball_vy b < 0 \<longrightarrow>
      checkWallCollision b canvasHeight
        = Some \<lparr>newY = BALL_SIZE / 2, newVY = - ball_vy b\<rparr>)
   \<and> (ball_y b + BALL_SIZE / 2 \<ge> canvasHeight \<and> ball_vy b > 0 \<longrightarrow>
      checkWallCollision b canvasHeight
        = Some \<lparr>newY = canvasHeight - BALL_SIZE / 2, newVY = - ball_vy b\<rparr>)
   \<and> (\<not> (ball_y b - BALL_SIZE / 2 \<le> 0 \<and> ball_vy b < 0)
      \<and> \<not> (ball_y b + BALL_SIZE / 2 \<ge> canvasHeight \<and> ball_vy b > 0) \<longrightarrow>
      checkWallCollision b canvasHeight = None)
   \<and> (\<forall>wc. checkWallCollision b canvasHeight = Some wc \<longrightarrow>
        \<bar>newVY wc\<bar> = \<bar>ball_vy b\<bar> \<and> sgn (newVY wc) = - sgn (ball_vy b))"
  by (auto simp add: checkWallCollision_def Let_def sgn_real_def split: if_splits)

theorem checkWallCollision_reflects_witness:
  "checkWallCollision \<lparr>ball_x = 400, ball_y = 3, ball_vx = 5, ball_vy = - 2\<rparr> 500
     = Some \<lparr>newY = 5, newVY = 2\<rparr>
   \<and> checkWallCollision \<lparr>ball_x = 400, ball_y = 497, ball_vx = 5, ball_vy = 2\<rparr> 500
     = Some \<lparr>newY = 495, newVY = - 2\<rparr>
   \<and> checkWallCollision \<lparr>ball_x = 400, ball_y = 250, ball_vx = 5, ball_vy = 2\<rparr> 500 = None"
  using checkWallCollision_reflects
          [of "\<lparr>ball_x = 400, ball_y = 3, ball_vx = 5, ball_vy = - 2\<rparr>" 500]
        checkWallCollision_reflects
          [of "\<lparr>ball_x = 400, ball_y = 497, ball_vx = 5, ball_vy = 2\<rparr>" 500]
        checkWallCollision_reflects
          [of "\<lparr>ball_x = 400, ball_y = 250, ball_vx = 5, ball_vy = 2\<rparr>" 500]
  by (simp add: BALL_SIZE_def)

section \<open>Ball relaunch\<close>

lemma resetBall_vx:
  "ball_vx (ball (resetBall toLeft rnd st))
     = cos (rnd * ANGLE_VARIATION - ANGLE_VARIATION / 2) * BALL_SPEED_START"
  by (simp add: resetBall_def Let_def)

text \<open>
  Whatever the direction asked for, the relaunched ball moves to the right: for
  \<open>toLeft\<close> the angle is turned by \<open>pi\<close> and the cosine is negated once more.
\<close>

lemma resetBall_vx_pos:
  assumes "0 \<le> rnd" and "rnd < 1"
  shows "0 < ball_vx (ball (resetBall toLeft rnd st))"
proof -
  have "\<bar>rnd * ANGLE_VARIATION - ANGLE_VARIATION / 2\<bar> < 1"
    using assms by (simp add: ANGLE_VARIATION_def abs_less_iff)
  moreover have "1 \<le> pi / 2"
    using pi_ge_two by linarith
  ultimately have "0 < cos (rnd * ANGLE_VARIATION - ANGLE_VARIATION / 2)"
    by (intro cos_gt_zero_pi) linarith+
  then show ?thesis
    unfolding resetBall_vx by (simp add: BALL_SPEED_START_def)
qed

text \<open>
  C2 at a failing input: \<open>resetBall(true)\<close> on the initial stores, with the random draw
  \<open>0.5\<close>, relaunches the ball with \<open>vx = 5.2\<close>, to the right, where the claim asks for
  \<open>vx < 0\<close>.
\<close>

theorem resetBall_toLeft_moves_right:
  "ball_vx (ball (resetBall True (1 / 2) initialStore)) = 5.2
   \<and> \<not> ball_vx (ball (resetBall True (1 / 2) initialStore)) < 0"
  by (simp add: resetBall_vx ANGLE_VARIATION_def BALL_SPEED_START_def)

section \<open>Match state\<close>

lemma resetBall_gameState: "gameState (resetBall t r st) = gameState st"
  by (simp add: resetBall_def Let_def)

lemma resetPositions_gameState: "gameState (resetPositions st) = gameState st"
  by (simp add: resetPositions_def Let_def)

lemma scorePoint_scores:
  "scoreLeft (gameState (scorePoint side rnd st))
     = scoreLeft (gameState st) + (if side = ''left'' then 1 else 0)
   \<and> scoreRight (gameState (scorePoint side rnd st))
     = scoreRight (gameState st) + (if side = ''left'' then 0 else 1)"
  by (simp add: scorePoint_def Let_def resetBall_gameState resetPositions_gameState)

text \<open>
  C3, as the code has it. \<open>scorePoint\<close> has no guard on \<open>over\<close>: it increments the score
  of the side named in every state. With \<open>over = true\<close> the scores are frozen by the game
  loop, which skips the physics step, the only caller of \<open>scorePoint\<close>, and leaves the
  stores as they are; \<open>togglePause\<close> changes no score, and \<open>resetMatch\<close> sets both to \<open>0\<close>.
\<close>

theorem scores_frozen_by_gameLoop:
  "(over (gameState (store e)) \<longrightarrow> gameLoop e rndAI rndBall = Some e)
   \<and> scoreLeft (gameState (togglePause st)) = scoreLeft (gameState st)
   \<and> scoreRight (gameState (togglePause st)) = scoreRight (gameState st)
   \<and> scoreLeft (gameState (scorePoint ''left'' rnd st)) = scoreLeft (gameState st) + 1
   \<and> scoreRight (gameState (scorePoint ''right'' rnd st)) = scoreRight (gameState st) + 1
   \<and> scoreLeft (gameState (resetMatch r1 r2 st)) = 0
   \<and> scoreRight (gameState (resetMatch r1 r2 st)) = 0"
  by (simp add: gameLoop_def Let_def togglePause_def scorePoint_scores resetMatch_def
      resetBall_gameState resetPositions_gameState)

theorem scores_frozen_by_gameLoop_witness:
  "gameLoop
     \<lparr>store = initialStore\<lparr>gameState :=
                \<lparr>paused = True, over = True, scoreLeft = 11, scoreRight = 3\<rparr>\<rparr>,
      playerMovement = 1, ai = AI_DIFFICULTIES_normal\<rparr> (1 / 2) (1 / 2)
   = Some
     \<lparr>store = initialStore\<lparr>gameState :=
                \<lparr>paused = True, over = True, scoreLeft = 11, scoreRight = 3\<rparr>\<rparr>,
      playerMovement = 1, ai = AI_DIFFICULTIES_normal\<rparr>"
  using scores_frozen_by_gameLoop
          [of "\<lparr>store = initialStore\<lparr>gameState :=
                    \<lparr>paused = True, over = True, scoreLeft = 11, scoreRight = 3\<rparr>\<rparr>,
                 playerMovement = 1, ai = AI_DIFFICULTIES_normal\<rparr>" "1 / 2" "1 / 2"]
  by simp

text \<open>
  C3 as stated fails: after the left side has won 11 to 3, \<open>scorePoint('left')\<close> makes
  the score 12.
\<close>

theorem scorePoint_changes_score_when_over:
  "scoreLeft (gameState (scorePoint ''left'' (1 / 2)
      (initialStore\<lparr>gameState :=
         \<lparr>paused = True, over = True, scoreLeft = 11, scoreRight = 3\<rparr>\<rparr>)))
   \<noteq> scoreLeft (gameState
      (initialStore\<lparr>gameState :=
         \<lparr>paused = True, over = True, scoreLeft = 11, scoreRight = 3\<rparr>\<rparr>))"
  by (simp add: scorePoint_scores)

lemma scorePoint_keeps_over:
  assumes "over (gameState st) \<and> paused (gameState st)"
  shows "over (gameState (scorePoint side rnd st)) \<and> paused (gameState (scorePoint side rnd st))"
  using assms
  by (simp add: scorePoint_def Let_def resetBall_gameState resetPositions_gameState)

lemma togglePause_when_over: "over (gameState st) \<Longrightarrow> togglePause st = st"
  by (simp add: togglePause_def)

lemma applyAction_keeps_over:
  assumes "over (gameState st) \<and> paused (gameState st)"
  shows "over (gameState (applyAction st a)) \<and> paused (gameState (applyAction st a))"
  using assms by (cases a) (simp_all add: scorePoint_keeps_over togglePause_when_over)

lemma applyActions_keeps_over:
  assumes "over (gameState st) \<and> paused (gameState st)"
  shows "over (gameState (applyActions st acts)) \<and> paused (gameState (applyActions st acts))"
  using assms unfolding applyActions_def
proof (induction acts arbitrary: st)
  case Nil
  then show ?case by simp
next
  case (Cons a acts)
  have "over (gameState (applyAction st a)) \<and> paused (gameState (applyAction st a))"
    using Cons.prems by (rule applyAction_keeps_over)
  then show ?case
    using Cons.IH by simp
qed

lemma scorePoint_reaching_win_score:
  assumes "WIN_SCORE \<le> scoreLeft (gameState (scorePoint side rnd st))
         \<or> WIN_SCORE \<le> scoreRight (gameState (scorePoint side rnd st))"
  shows "over (gameState (scorePoint side rnd st)) \<and> paused (gameState (scorePoint side rnd st))"
  using assms
  by (auto simp add: scorePoint_def Let_def resetBall_gameState resetPositions_gameState
      split: if_splits)

text \<open>
  C5. Once a call of \<open>scorePoint\<close> has brought a score to \<open>WIN_SCORE\<close>, \<open>over\<close> and
  \<open>paused\<close> are true and stay true through every sequence of \<open>scorePoint\<close> and
  \<open>togglePause\<close> calls; \<open>resetMatch\<close> clears both.
\<close>

theorem over_and_paused_until_resetMatch:
  assumes "WIN_SCORE \<le> scoreLeft (gameState (scorePoint side rnd st))
         \<or> WIN_SCORE \<le> scoreRight (gameState (scorePoint side rnd st))"
  shows "over (gameState (applyActions (scorePoint side rnd st) acts))
       \<and> paused (gameState (applyActions (scorePoint side rnd st) acts))
       \<and> \<not> over (gameState (resetMatch r1 r2 (applyActions (scorePoint side rnd st) acts)))
       \<and> \<not> paused (gameState (resetMatch r1 r2 (applyActions (scorePoint side rnd st) acts)))"
  using applyActions_keeps_over[OF scorePoint_reaching_win_score[OF assms]]
  by (simp add: resetMatch_def resetBall_gameState resetPositions_gameState)

theorem over_and_paused_until_resetMatch_witness:
  "over (gameState (applyActions
      (scorePoint ''left'' (1 / 2)
        (initialStore\<lparr>gameState :=
           \<lparr>paused = False, over = False, scoreLeft = 10, scoreRight = 3\<rparr>\<rparr>))
      [TogglePause, ScorePoint ''right'' (1 / 4), TogglePause]))
   \<and> paused (gameState (applyActions
      (scorePoint ''left'' (1 / 2)
        (initialStore\<lparr>gameState :=
           \<lparr>paused = False, over = False, scoreLeft = 10, scoreRight = 3\<rparr>\<rparr>))
      [TogglePause, ScorePoint ''right'' (1 / 4), TogglePause]))"
proof -
  let ?st = "initialStore\<lparr>gameState :=
               \<lparr>paused = False, over = False, scoreLeft = 10, scoreRight = 3\<rparr>\<rparr>"
  have "WIN_SCORE \<le> scoreLeft (gameState (scorePoint ''left'' (1 / 2) ?st))
      \<or> WIN_SCORE \<le> scoreRight (gameState (scorePoint ''left'' (1 / 2) ?st))"
    by (simp add: scorePoint_scores WIN_SCORE_def)
  from over_and_paused_until_resetMatch[OF this] show ?thesis
    by simp
qed

section \<open>Paddle bounds\<close>

lemma updatePaddlePosition_inBounds:
  assumes "paddle_height p \<le> canvasHeight"
  shows "paddleInBounds (updatePaddlePosition p movement speed canvasHeight) canvasHeight"
  using assms by (simp add: updatePaddlePosition_def Let_def paddleInBounds_def clamp_def)

lemma createAI_update_inBounds:
  assumes "paddle_height p \<le> canvasHeight"
    and "createAI_update settings b p canvasWidth canvasHeight rnd = Some newRightY"
  shows "paddleInBounds (p\<lparr>paddle_y := newRightY\<rparr>) canvasHeight"
  using assms by (auto simp add: createAI_update_def paddleInBounds_def split: option.splits)

lemma createAI_update_number:
  assumes "ball_vx b \<noteq> 0"
  shows "createAI_update settings b p canvasWidth canvasHeight rnd \<noteq> None"
  using assms
  by (simp add: createAI_update_def calculatePredictiveAIMovement_def Let_def
      split: option.splits)

lemma gameActions_updatePaddlePosition_left_inBounds:
  assumes "paddle_height (left (paddles st)) \<le> canvas_height (canvas st)"
  shows "\<exists>st'. gameActions_updatePaddlePosition ''left'' yv st = Some st'
           \<and> paddleInBounds (left (paddles st')) (canvas_height (canvas st'))"
  using assms by (simp add: gameActions_updatePaddlePosition_def Let_def paddleInBounds_def)

lemma gameActions_updatePaddlePosition_right_inBounds:
  assumes "paddle_height (right (paddles st)) \<le> canvas_height (canvas st)"
  shows "\<exists>st'. gameActions_updatePaddlePosition ''right'' yv st = Some st'
           \<and> paddleInBounds (right (paddles st')) (canvas_height (canvas st'))"
  using assms by (simp add: gameActions_updatePaddlePosition_def Let_def paddleInBounds_def)

lemma handleTouchMove_inBounds:
  assumes "paddle_height (left (paddles st)) \<le> canvas_height (canvas st)"
  shows "\<exists>st'. handleTouchMove yv st = Some st'
           \<and> paddleInBounds (left (paddles st')) (canvas_height (canvas st'))"
  using assms
  by (simp add: handleTouchMove_def Let_def gameActions_updatePaddlePosition_left_inBounds)

lemma resetPositions_inBounds:
  assumes "MIN_PADDLE_HEIGHT \<le> canvas_height (canvas st)"
  shows "paddleInBounds (left (paddles (resetPositions st)))
           (canvas_height (canvas (resetPositions st)))
       \<and> paddleInBounds (right (paddles (resetPositions st)))
           (canvas_height (canvas (resetPositions st)))"
  using assms
  by (simp add: resetPositions_def Let_def paddleInBounds_def MIN_PADDLE_HEIGHT_def
      PADDLE_HEIGHT_RATIO_def max_def)

lemma resetBall_frame:
  "paddles (resetBall t r st) = paddles st" "canvas (resetBall t r st) = canvas st"
  by (simp_all add: resetBall_def Let_def)

lemma resetMatch_inBounds:
  assumes "MIN_PADDLE_HEIGHT \<le> canvas_height (canvas st)"
  shows "paddleInBounds (left (paddles (resetMatch r1 r2 st)))
           (canvas_height (canvas (resetMatch r1 r2 st)))
       \<and> paddleInBounds (right (paddles (resetMatch r1 r2 st)))
           (canvas_height (canvas (resetMatch r1 r2 st)))"
  using assms
    resetPositions_inBounds
      [of "st\<lparr>gameState := (gameState st)\<lparr>paused := False, over := False,
                                          scoreLeft := 0, scoreRight := 0\<rparr>\<rparr>"]
  by (simp add: resetMatch_def Let_def resetBall_frame)

lemma scorePoint_inBounds:
  assumes "MIN_PADDLE_HEIGHT \<le> canvas_height (canvas st)"
  shows "paddleInBounds (left (paddles (scorePoint side r st)))
           (canvas_height (canvas (scorePoint side r st)))
       \<and> paddleInBounds (right (paddles (scorePoint side r st)))
           (canvas_height (canvas (scorePoint side r st)))"
  using assms resetPositions_inBounds[of "st\<lparr>gameState := g\<rparr>" for g]
  by (simp add: scorePoint_def Let_def resetBall_frame)

text \<open>
  C6, as the code has it. Every clamp of the source is \<open>max 0 (min (canvasHeight - height) y)\<close>,
  which lies in \<open>[0, canvasHeight - height]\<close> when the paddle fits in the canvas,
  \<open>height \<le> canvasHeight\<close>. Under that condition the player movement, the AI update
  (whenever it returns a number, which it does for every ball with \<open>vx \<noteq> 0\<close>), the
  \<open>updatePaddlePosition\<close> action and the touch movement leave the paddle within bounds.
  The reset actions set the height to \<open>max 60 (0.18 * canvasHeight)\<close> and centre the
  paddles: both are within bounds when \<open>canvasHeight \<ge> 60\<close>.
\<close>

theorem paddle_updates_inBounds:
  "(paddle_height p \<le> canvasHeight \<longrightarrow>
      paddleInBounds (updatePaddlePosition p movement speed canvasHeight) canvasHeight
      \<and> (\<forall>newRightY.
           createAI_update settings b p canvasWidth canvasHeight rnd = Some newRightY \<longrightarrow>
           paddleInBounds (p\<lparr>paddle_y := newRightY\<rparr>) canvasHeight))
   \<and> (ball_vx b \<noteq> 0 \<longrightarrow>
        createAI_update settings b p canvasWidth canvasHeight rnd \<noteq> None)
   \<and> (paddle_height (left (paddles st)) \<le> canvas_height (canvas st) \<longrightarrow>
        (\<exists>st'. gameActions_updatePaddlePosition ''left'' yv st = Some st'
           \<and> paddleInBounds (left (paddles st')) (canvas_height (canvas st')))
        \<and> (\<exists>st'. handleTouchMove yv st = Some st'
           \<and> paddleInBounds (left (paddles st')) (canvas_height (canvas st'))))
   \<and> (paddle_height (right (paddles st)) \<le> canvas_height (canvas st) \<longrightarrow>
        (\<exists>st'. gameActions_updatePaddlePosition ''right'' yv st = Some st'
           \<and> paddleInBounds (right (paddles st')) (canvas_height (canvas st'))))
   \<and> (MIN_PADDLE_HEIGHT \<le> canvas_height (canvas st) \<longrightarrow>
        paddleInBounds (left (paddles (resetPositions st)))
          (canvas_height (canvas (resetPositions st)))
        \<and> paddleInBounds (right (paddles (resetPositions st)))
          (canvas_height (canvas (resetPositions st)))
        \<and> paddleInBounds (left (paddles (resetMatch rndSide rndAngle st)))
          (canvas_height (canvas (resetMatch rndSide rndAngle st)))
        \<and> paddleInBounds (right (paddles (resetMatch rndSide rndAngle st)))
          (canvas_height (canvas (resetMatch rndSide rndAngle st)))
        \<and> paddleInBounds (left (paddles (scorePoint side rnd st)))
          (canvas_height (canvas (scorePoint side rnd st)))
        \<and> paddleInBounds (right (paddles (scorePoint side rnd st)))
          (canvas_height (canvas (scorePoint side rnd st))))"
  using updatePaddlePosition_inBounds[of p canvasHeight movement speed]
    createAI_update_inBounds[of p canvasHeight settings b canvasWidth rnd]
    createAI_update_number[of b settings p canvasWidth canvasHeight rnd]
    gameActions_updatePaddlePosition_left_inBounds[of st yv]
    gameActions_updatePaddlePosition_right_inBounds[of st yv]
    handleTouchMove_inBounds[of st yv]
    resetPositions_inBounds[of st]
    resetMatch_inBounds[of st rndSide rndAngle]
    scorePoint_inBounds[of st side rnd]
  by blast

theorem paddle_updates_inBounds_witness:
  "paddleInBounds (updatePaddlePosition \<lparr>paddle_y = 405, paddle_height = 90\<rparr> 1 7 500) 500
   \<and> createAI_update AI_DIFFICULTIES_normal
        \<lparr>ball_x = 400, ball_y = 250, ball_vx = - 5, ball_vy = 2\<rparr>
        \<lparr>paddle_y = 405, paddle_height = 90\<rparr> 800 500 (1 / 2) \<noteq> None
   \<and> (\<exists>st'. handleTouchMove 490 initialStore = Some st'
          \<and> paddleInBounds (left (paddles st')) (canvas_height (canvas st')))
   \<and> (\<exists>st'. gameActions_updatePaddlePosition ''right'' (- 3) initialStore = Some st'
          \<and> paddleInBounds (right (paddles st')) (canvas_height (canvas st')))
   \<and> paddleInBounds (left (paddles (resetMatch (1 / 4) (1 / 2) initialStore)))
        (canvas_height (canvas (resetMatch (1 / 4) (1 / 2) initialStore)))"
proof -
  have fits: "paddle_height \<lparr>paddle_y = 405, paddle_height = 90\<rparr> \<le> (500::real)"
    by simp
  have moving: "ball_vx \<lparr>ball_x = 400, ball_y = 250, ball_vx = - 5, ball_vy = 2\<rparr> \<noteq> 0"
    by simp
  have left_fits: "paddle_height (left (paddles initialStore))
                     \<le> canvas_height (canvas initialStore)"
    by (simp add: initialStore_def initialPaddleHeight_def config_defs)
  have right_fits: "paddle_height (right (paddles initialStore))
                      \<le> canvas_height (canvas initialStore)"
    by (simp add: initialStore_def initialPaddleHeight_def config_defs)
  have tall: "MIN_PADDLE_HEIGHT \<le> canvas_height (canvas initialStore)"
    by (simp add: initialStore_def config_defs)
  show ?thesis
    using fits moving left_fits right_fits tall
      paddle_updates_inBounds
        [where p = "\<lparr>paddle_y = 405, paddle_height = 90\<rparr>" and canvasHeight = 500
           and movement = 1 and speed = 7 and settings = AI_DIFFICULTIES_normal
           and b = "\<lparr>ball_x = 400, ball_y = 250, ball_vx = - 5, ball_vy = 2\<rparr>"
           and canvasWidth = 800 and rnd = "1 / 2" and st = initialStore and yv = 490
           and rndSide = "1 / 4" and rndAngle = "1 / 2" and side = "''left''"]
      paddle_updates_inBounds
        [where p = "\<lparr>paddle_y = 405, paddle_height = 90\<rparr>" and canvasHeight = 500
           and b = "\<lparr>ball_x = 400, ball_y = 250, ball_vx = - 5, ball_vy = 2\<rparr>"
           and st = initialStore and yv = "- 3"]
    by blast
qed

text \<open>
  C6 as stated fails on a canvas lower than the minimal paddle height: in a canvas of
  height 50, \<open>resetPositions\<close> puts both paddles, of height 60, at \<open>y = - 5\<close>.
\<close>

theorem resetPositions_out_of_bounds:
  "\<not> 0 \<le> paddle_y (left (paddles (resetPositions
        (initialStore\<lparr>canvas :=
           \<lparr>canvas_width = 80, canvas_height = 50, canvas_dpr = 1\<rparr>\<rparr>))))"
  by (simp add: resetPositions_def Let_def MIN_PADDLE_HEIGHT_def PADDLE_HEIGHT_RATIO_def)

section \<open>Predictive AI\<close>

lemma predictAndMove_without_error:
  assumes "1 \<le> difficulty"
  shows "predictAndMove b p canvasHeight difficulty t r1
       = predictAndMove b p canvasHeight difficulty t r2"
  using assms by (simp add: predictAndMove_def Let_def)

lemma AI_DIFFICULTIES_without_error:
  assumes "AI_DIFFICULTIES key = Some settings" and "key \<noteq> ''easy''"
  shows "1 \<le> multiplier settings"
  using assms
  by (auto simp add: AI_DIFFICULTIES_def AI_DIFFICULTIES_normal_def split: if_splits)

text \<open>
  C8. With a difficulty multiplier of at least 1 the imperfection is
  \<open>(1 - min difficulty 1) * 50 = 0\<close>: two runs of \<open>calculatePredictiveAIMovement\<close> on the
  same ball, paddle and canvas give the same movement whatever the two random draws, and
  so do two runs of the controller's \<open>update\<close>.
\<close>

theorem calculatePredictiveAIMovement_random_independent:
  assumes "1 \<le> difficulty"
  shows "calculatePredictiveAIMovement b p canvasWidth canvasHeight difficulty r1
       = calculatePredictiveAIMovement b p canvasWidth canvasHeight difficulty r2
       \<and> (multiplier settings = difficulty \<longrightarrow>
            createAI_update settings b p canvasWidth canvasHeight r1
          = createAI_update settings b p canvasWidth canvasHeight r2)"
  using assms
  by (simp add: createAI_update_def calculatePredictiveAIMovement_def Let_def
      predictAndMove_without_error[of difficulty b p canvasHeight _ r1 r2])

theorem calculatePredictiveAIMovement_random_independent_witness:
  "calculatePredictiveAIMovement \<lparr>ball_x = 400, ball_y = 250, ball_vx = 5, ball_vy = 2\<rparr>
      \<lparr>paddle_y = 205, paddle_height = 90\<rparr> 800 500 1 0
   = calculatePredictiveAIMovement \<lparr>ball_x = 400, ball_y = 250, ball_vx = 5, ball_vy = 2\<rparr>
      \<lparr>paddle_y = 205, paddle_height = 90\<rparr> 800 500 1 (9 / 10)
   \<and> createAI_update AI_DIFFICULTIES_normal
        \<lparr>ball_x = 400, ball_y = 250, ball_vx = 5, ball_vy = 2\<rparr>
        \<lparr>paddle_y = 205, paddle_height = 90\<rparr> 800 500 0
   = createAI_update AI_DIFFICULTIES_normal
        \<lparr>ball_x = 400, ball_y = 250, ball_vx = 5, ball_vy = 2\<rparr>
        \<lparr>paddle_y = 205, paddle_height = 90\<rparr> 800 500 (9 / 10)"
proof -
  have d: "(1::real) \<le> 1"
    by simp
  have m: "multiplier AI_DIFFICULTIES_normal = 1"
    by (simp add: AI_DIFFICULTIES_normal_def)
  from calculatePredictiveAIMovement_random_independent
         [OF d, where settings = AI_DIFFICULTIES_normal] m
  show ?thesis
    by blast
qed

section \<open>Movement keys\<close>

lemma toLowerCase_examples:
  "toLowerCase ''w'' = ''w''" "toLowerCase ''s'' = ''s''"
  "toLowerCase ''ArrowUp'' = ''arrowup''"
  by (simp_all add: toLowerCase_def lowerChar_def)

text \<open>
  The scenario of the specification through the key handlers: up pressed alone reports
  \<open>-1\<close>, down pressed with it \<open>0\<close>, and after both are released \<open>0\<close>.
\<close>

lemma key_handlers_scenario:
  "handleKeyDown ''ArrowUp'' [] = ([''arrowup''], Some (Move (- 1)))"
  "handleKeyDown ''s'' [''arrowup''] = ([''arrowup'', ''s''], Some (Move 0))"
  "handleKeyUp ''ArrowUp'' [''arrowup'', ''s''] = ([''s''], Some (Move 1))"
  "handleKeyUp ''s'' [''s''] = ([], Some (Move 0))"
  by (simp_all add: handleKeyDown_def handleKeyUp_def updateMovementState_def Let_def
      isKeyForAction_def getKeysForAction_def toLowerCase_def lowerChar_def)

text \<open>
  C9. For every set of active keys, \<open>calculateMovement\<close> returns \<open>-1\<close> when an up key
  and no down key is pressed, \<open>0\<close> when an up key and a down key are pressed together,
  and \<open>0\<close> when neither is pressed; \<open>updateMovementState\<close> reports the same value.
\<close>

theorem calculateMovement_accumulates:
  "((\<exists>k \<in> set activeKeys. isKeyForAction k ''up'')
      \<and> \<not> (\<exists>k \<in> set activeKeys. isKeyForAction k ''down'')
      \<longrightarrow> calculateMovement activeKeys = - 1)
   \<and> ((\<exists>k \<in> set activeKeys. isKeyForAction k ''up'')
      \<and> (\<exists>k \<in> set activeKeys. isKeyForAction k ''down'')
      \<longrightarrow> calculateMovement activeKeys = 0)
   \<and> (\<not> (\<exists>k \<in> set activeKeys. isKeyForAction k ''up'')
      \<and> \<not> (\<exists>k \<in> set activeKeys. isKeyForAction k ''down'')
      \<longrightarrow> calculateMovement activeKeys = 0)
   \<and> updateMovementState activeKeys = calculateMovement activeKeys"
  by (simp add: calculateMovement_def updateMovementState_def Let_def)

theorem calculateMovement_accumulates_witness:
  "calculateMovement [''ArrowUp''] = - 1
   \<and> calculateMovement [''w'', ''s''] = 0
   \<and> calculateMovement [] = 0"
  using calculateMovement_accumulates[of "[''ArrowUp'']"]
    calculateMovement_accumulates[of "[''w'', ''s'']"]
    calculateMovement_accumulates[of "[]"]
  by (simp add: isKeyForAction_def getKeysForAction_def toLowerCase_examples)

section \<open>Paddle collisions within a tick\<close>

lemma applyCollision_position:
  assumes "applyCollision b c = Some b1"
  shows "ball_x b1 = newX c \<and> ball_y b1 = ball_y b"
  using assms by (auto simp add: applyCollision_def Let_def split: option.splits)

lemma checkPaddleCollision_left_fires:
  assumes "checkPaddleCollision b p True canvasWidth = Some c"
  shows "newX c = 75 / 2 \<and> ball_vx b < 0"
  using assms by (auto simp add: checkPaddleCollision_def Let_def config_defs split: if_splits)

lemma checkPaddleCollision_right_fires:
  assumes "checkPaddleCollision b p False canvasWidth = Some c"
  shows "canvasWidth - 37 \<le> ball_x b \<and> ball_x b < canvasWidth - 20 \<and> 0 < ball_vx b"
  using assms by (auto simp add: checkPaddleCollision_def Let_def config_defs split: if_splits)

lemma no_right_collision_after_left:
  assumes "canvasWidth \<le> 57.5 \<or> 74.5 < canvasWidth"
    and "checkPaddleCollision b pl True canvasWidth = Some c"
    and "applyCollision b c = Some b1"
  shows "checkPaddleCollision b1 pr False canvasWidth = None"
proof (rule ccontr)
  assume "checkPaddleCollision b1 pr False canvasWidth \<noteq> None"
  then obtain c' where "checkPaddleCollision b1 pr False canvasWidth = Some c'"
    by auto
  then have "canvasWidth - 37 \<le> ball_x b1 \<and> ball_x b1 < canvasWidth - 20"
    using checkPaddleCollision_right_fires by blast
  moreover have "ball_x b1 = 75 / 2"
    using applyCollision_position[OF assms(3)] checkPaddleCollision_left_fires[OF assms(2)]
    by simp
  ultimately show False
    using assms(1) by auto
qed

lemma collisions_exclusive_on_same_ball:
  assumes "checkPaddleCollision b pl True canvasWidth = Some c"
  shows "checkPaddleCollision b pr False canvasWidth = None"
  using checkPaddleCollision_left_fires[OF assms]
    checkPaddleCollision_right_fires[of b pr canvasWidth]
  by (cases "checkPaddleCollision b pr False canvasWidth") auto

lemma calculateReflection_centre_hit:
  "calculateReflection (1 / 2) True (- 5) 0 = \<lparr>vx = 53 / 10, vy = 9 / 10\<rparr>"
  by (simp add: calculateReflection_def Let_def reflectionAngle_def reflectionSpeed_def
      hypot_def signOr1_def config_defs)

text \<open>
  C4, as the code has it. The right-paddle check reads the ball as the left reflection
  left it. A left reflection puts the ball at \<open>x = 37.5\<close>, moving right, which is within
  reach of the right paddle only for a canvas width in \<open>(57.5, 74.5]\<close>. For every other
  canvas width the paddle phase of a tick gives what checking both paddles against the
  same ball, the one after the wall collision, gives, and at most one paddle reflection is
  applied.
\<close>

theorem paddleCollisions_at_most_one:
  assumes "canvasWidth \<le> 57.5 \<or> 74.5 < canvasWidth"
  shows "paddleCollisions b ps canvasWidth = paddleCollisions_sameState b ps canvasWidth
       \<and> reflectionsApplied (paddleCollisions b ps canvasWidth) \<le> 1"
proof (cases "checkPaddleCollision b (left ps) True canvasWidth")
  case None
  then show ?thesis
    by (simp add: paddleCollisions_def paddleCollisions_sameState_def Let_def
        reflectionsApplied_def)
next
  case (Some c)
  note lc = this
  have same: "checkPaddleCollision b (right ps) False canvasWidth = None"
    using lc by (rule collisions_exclusive_on_same_ball)
  show ?thesis
  proof (cases "applyCollision b c")
    case None
    then show ?thesis
      using lc same
      by (simp add: paddleCollisions_def paddleCollisions_sameState_def Let_def
          reflectionsApplied_def)
  next
    case (Some b1)
    have "checkPaddleCollision b1 (right ps) False canvasWidth = None"
      using assms lc Some by (rule no_right_collision_after_left)
    then show ?thesis
      using lc same Some
      by (simp add: paddleCollisions_def paddleCollisions_sameState_def Let_def
          reflectionsApplied_def)
  qed
qed

theorem paddleCollisions_at_most_one_witness:
  "paddleCollisions \<lparr>ball_x = 36, ball_y = 250, ball_vx = - 5, ball_vy = 0\<rparr>
      \<lparr>left = \<lparr>paddle_y = 205, paddle_height = 90\<rparr>,
       right = \<lparr>paddle_y = 205, paddle_height = 90\<rparr>\<rparr> 800
   = paddleCollisions_sameState \<lparr>ball_x = 36, ball_y = 250, ball_vx = - 5, ball_vy = 0\<rparr>
      \<lparr>left = \<lparr>paddle_y = 205, paddle_height = 90\<rparr>,
       right = \<lparr>paddle_y = 205, paddle_height = 90\<rparr>\<rparr> 800
   \<and> reflectionsApplied
       (paddleCollisions \<lparr>ball_x = 36, ball_y = 250, ball_vx = - 5, ball_vy = 0\<rparr>
          \<lparr>left = \<lparr>paddle_y = 205, paddle_height = 90\<rparr>,
           right = \<lparr>paddle_y = 205, paddle_height = 90\<rparr>\<rparr> 800) \<le> 1"
proof -
  have "(800::real) \<le> 57.5 \<or> 74.5 < (800::real)"
    by simp
  then show ?thesis
    by (rule paddleCollisions_at_most_one)
qed

text \<open>
  C4 as stated fails on a canvas 60 wide: the ball reflected by the left paddle, now at
  \<open>x = 37.5\<close> and moving right, is within the right paddle's range, the right check
  fires on it (on the ball after the wall collision it does not), and two reflections are
  applied in the tick.
\<close>

theorem paddleCollisions_reflects_twice:
  "reflectionsApplied
     (paddleCollisions \<lparr>ball_x = 36, ball_y = 250, ball_vx = - 5, ball_vy = 0\<rparr>
        \<lparr>left = \<lparr>paddle_y = 205, paddle_height = 90\<rparr>,
         right = \<lparr>paddle_y = 205, paddle_height = 90\<rparr>\<rparr> 60) = 2
   \<and> checkPaddleCollision \<lparr>ball_x = 36, ball_y = 250, ball_vx = - 5, ball_vy = 0\<rparr>
        \<lparr>paddle_y = 205, paddle_height = 90\<rparr> False 60 = None
   \<and> rightCollision
        (paddleCollisions \<lparr>ball_x = 36, ball_y = 250, ball_vx = - 5, ball_vy = 0\<rparr>
           \<lparr>left = \<lparr>paddle_y = 205, paddle_height = 90\<rparr>,
            right = \<lparr>paddle_y = 205, paddle_height = 90\<rparr>\<rparr> 60)
      = Some \<lparr>hitPosition = Some (1 / 2), newX = 45 / 2, isLeftPaddle = False\<rparr>"
proof -
  let ?b = "\<lparr>ball_x = 36, ball_y = 250, ball_vx = - 5, ball_vy = 0\<rparr>"
  let ?p = "\<lparr>paddle_y = 205, paddle_height = 90\<rparr>"
  let ?b1 = "\<lparr>ball_x = 75 / 2, ball_y = 250, ball_vx = 53 / 10, ball_vy = 9 / 10\<rparr>"
  have l: "checkPaddleCollision ?b ?p True 60
             = Some \<lparr>hitPosition = Some (1 / 2), newX = 75 / 2, isLeftPaddle = True\<rparr>"
    by (simp add: checkPaddleCollision_def Let_def config_defs)
  have a: "applyCollision ?b \<lparr>hitPosition = Some (1 / 2), newX = 75 / 2, isLeftPaddle = True\<rparr>
             = Some ?b1"
    by (simp add: applyCollision_def Let_def calculateReflection_centre_hit)
  have r: "checkPaddleCollision ?b1 ?p False 60
             = Some \<lparr>hitPosition = Some (1 / 2), newX = 45 / 2, isLeftPaddle = False\<rparr>"
    by (simp add: checkPaddleCollision_def Let_def config_defs)
  have s: "checkPaddleCollision ?b ?p False 60 = None"
    by (simp add: checkPaddleCollision_def Let_def config_defs)
  have rc: "rightCollision (paddleCollisions ?b \<lparr>left = ?p, right = ?p\<rparr> 60)
              = Some \<lparr>hitPosition = Some (1 / 2), newX = 45 / 2, isLeftPaddle = False\<rparr>"
    by (simp add: paddleCollisions_def Let_def l a r)
  have lc: "leftCollision (paddleCollisions ?b \<lparr>left = ?p, right = ?p\<rparr> 60)
              = Some \<lparr>hitPosition = Some (1 / 2), newX = 75 / 2, isLeftPaddle = True\<rparr>"
    by (simp add: paddleCollisions_def Let_def l)
  show ?thesis
    using rc lc s by (simp add: reflectionsApplied_def)
qed

text \<open>
  The same on a whole tick: on a canvas 60 wide, \<open>updatePhysics\<close> takes a ball at
  \<open>x = 41\<close> moving left to \<open>x = 22.5\<close>, in front of the right paddle and moving left again:
  it has bounced off both paddles.
\<close>

lemma updatePhysics_reflects_twice:
  "\<exists>e'. updatePhysics
     \<lparr>store = \<lparr>canvas = \<lparr>canvas_width = 60, canvas_height = 500, canvas_dpr = 1\<rparr>,
               paddles = \<lparr>left = \<lparr>paddle_y = 205, paddle_height = 90\<rparr>,
                          right = \<lparr>paddle_y = 205, paddle_height = 90\<rparr>\<rparr>,
               ball = \<lparr>ball_x = 41, ball_y = 250, ball_vx = - 5, ball_vy = 0\<rparr>,
               gameState = \<lparr>paused = False, over = False, scoreLeft = 0, scoreRight = 0\<rparr>\<rparr>,
      playerMovement = 0, ai = AI_DIFFICULTIES_normal\<rparr> (1 / 2) (1 / 2) = Some e'
    \<and> ball_x (ball (store e')) = 45 / 2 \<and> ball_vx (ball (store e')) < 0"
proof -
  let ?b = "\<lparr>ball_x = 36, ball_y = 250, ball_vx = - 5, ball_vy = 0\<rparr>"
  let ?p = "\<lparr>paddle_y = 205, paddle_height = 90\<rparr>"
  let ?b1 = "\<lparr>ball_x = 75 / 2, ball_y = 250, ball_vx = 53 / 10, ball_vy = 9 / 10\<rparr>"
  let ?c2 = "\<lparr>hitPosition = Some (1 / 2), newX = 45 / 2, isLeftPaddle = False\<rparr>"
  have l: "checkPaddleCollision ?b ?p True 60
             = Some \<lparr>hitPosition = Some (1 / 2), newX = 75 / 2, isLeftPaddle = True\<rparr>"
    by (simp add: checkPaddleCollision_def Let_def config_defs)
  have a: "applyCollision ?b \<lparr>hitPosition = Some (1 / 2), newX = 75 / 2, isLeftPaddle = True\<rparr>
             = Some ?b1"
    by (simp add: applyCollision_def Let_def calculateReflection_centre_hit)
  have r: "checkPaddleCollision ?b1 ?p False 60 = Some ?c2"
    by (simp add: checkPaddleCollision_def Let_def config_defs)
  obtain b2 where b2: "applyCollision ?b1 ?c2 = Some b2"
    by (simp add: applyCollision_def Let_def)
  have x2: "ball_x b2 = 45 / 2"
    using applyCollision_position[OF b2] by simp
  have "ball_vx b2 = vx (calculateReflection (1 / 2) False (53 / 10) (9 / 10))"
    using b2 by (auto simp add: applyCollision_def Let_def)
  also have "\<dots> = - reflectionSpeed (53 / 10) (9 / 10)"
    by (simp add: calculateReflection_def Let_def reflectionAngle_def)
  finally have v2: "ball_vx b2 < 0"
    using reflectionSpeed_pos[of "53 / 10" "9 / 10"] by simp
  have ph: "phaseBall (paddleCollisions ?b \<lparr>left = ?p, right = ?p\<rparr> 60) = Some b2"
    by (simp add: paddleCollisions_def Let_def l a r b2)
  have ai: "createAI_update AI_DIFFICULTIES_normal
              \<lparr>ball_x = 41, ball_y = 250, ball_vx = - 5, ball_vy = 0\<rparr> ?p 60 500 (1 / 2)
            = Some 205"
    by (simp add: createAI_update_def calculatePredictiveAIMovement_def Let_def config_defs)
  have sc: "checkScoring b2 60 = None"
    using x2 by (simp add: checkScoring_def Let_def config_defs)
  show ?thesis
    by (simp add: updatePhysics_def Let_def ai updateBallPosition_def checkWallCollision_def
        BALL_SIZE_def ph sc x2 v2)
qed

end
